theory Spec2Isabelle
  imports Complex_Main
begin

section \<open>The multi-track player: data model\<close>

text \<open>
  The model follows the class \<open>MultiTrackPlayer\<close> of \<open>MultiTrackPlayer.js\<close> in its
  later revision (the one with \<open>_subdivisionNoteValue\<close>, \<open>_isMuted\<close> and
  \<open>_lastVolume\<close>). JavaScript numbers are read as real numbers: tempo, meter,
  subdivision, gains and clock readings are of type \<open>real\<close>, so rounding, overflow
  and the special values of IEEE doubles are outside the model. In particular a quotient
  by zero is 0 here and \<open>Infinity\<close> or \<open>NaN\<close> there: the setters keep tempo, meter
  and subdivision positive, and the statements below that read a quotient assume so.
  Column indices are integers. Private fields lose their leading underscore.

  Every method becomes a function from the player to the updated player and the list of
  effects the call had on its collaborators, in the order the code performs them: events
  given to \<open>dispatchEvent\<close>, console diagnostics, and commands to the audio nodes.
\<close>

datatype audioBuffer = AudioBuffer nat

text \<open>
  What callers hand to \<open>addAudioToGrid\<close>. The method is documented for a decoded
  buffer and checks nothing, so the cell holds whichever value it is given: \<open>null\<close>
  or \<open>undefined\<close>, a decoded buffer, or (the grid application's "combined" hit) an
  object \<open>{open, slap, slapMultiplier}\<close>.
\<close>

datatype placement =
    Null
  | Single audioBuffer
  | Combined audioBuffer audioBuffer real

record track =
  gain :: real
  cells :: "int \<rightharpoonup> placement"
  isMuted :: bool
  lastVolume :: real

text \<open>
  A buffer source node as the scheduler creates it: the buffer assigned to it, the track
  whose gain node it is connected to, and the time given to \<open>start\<close>. The \<open>buffer\<close>
  attribute of an \<open>AudioBufferSourceNode\<close> takes a decoded buffer; the assignment of
  any other object raises \<open>TypeError\<close>.
\<close>

datatype error = TypeError

record bufferSource =
  buffer :: audioBuffer
  connectedTo :: string
  startAt :: real

record audioContext =
  suspended :: bool
  currentTime :: real

record player =
  tracks :: "(string \<times> track) list"
  bpm :: real
  timeSignatureNumerator :: real
  timeSignatureDenominator :: real
  subdivisionNoteValue :: real
  loop :: bool
  isPlaying :: bool
  isPaused :: bool
  playbackTime :: real
  currentCellIndex :: int
  nextCellTime :: real
  scheduledSources :: "bufferSource list"
  masterGain :: real

datatype event =
    EvPlay
  | EvPause
  | EvStop
  | GridCellChanged int real
  | BpmChanged real
  | TimeSignatureChanged real real
  | SubdivisionChanged real
  | LoopingChanged bool
  | TrackAdded string
  | TrackRemoved string
  | AudioAddedToGrid string int placement
  | AudioRemovedFromGrid string int
  | TrackVolumeChanged string real
  | TrackMuteChanged string bool
  | MasterVolumeChanged real

datatype effect =
    DispatchEvent event
  | ConsoleWarn string
  | ConsoleError string
  | SourceStart bufferSource
  | SourceStop bufferSource
  | ContextResume
  | GainDisconnect string

definition lookAheadTime :: real where
  "lookAheadTime = 1 / 10"

text \<open>The fields as the class initialises them, after the constructor has run.\<close>

definition newPlayer :: player where
  "newPlayer = \<lparr> tracks = [], bpm = 120, timeSignatureNumerator = 4,
     timeSignatureDenominator = 4, subdivisionNoteValue = 16, loop = True,
     isPlaying = False, isPaused = False, playbackTime = 0, currentCellIndex = - 1,
     nextCellTime = 0, scheduledSources = [], masterGain = 1 \<rparr>"

subsection \<open>The track registry\<close>

text \<open>
  \<open>_tracks\<close> is a JavaScript \<open>Map\<close>, iterated in insertion order: an association
  list. \<open>getTrack\<close> is \<open>Map.get\<close>; \<open>modifyTrack\<close> is an in-place change of the
  track object stored under an id; \<open>deleteTrack\<close> is \<open>Map.delete\<close>.
\<close>

definition getTrack :: "player \<Rightarrow> string \<Rightarrow> track option" where
  "getTrack p trackId = map_of (tracks p) trackId"

definition modifyTrack :: "string \<Rightarrow> (track \<Rightarrow> track) \<Rightarrow> (string \<times> track) list \<Rightarrow> (string \<times> track) list" where
  "modifyTrack trackId f ts = map (\<lambda>(k, t). if k = trackId then (k, f t) else (k, t)) ts"

definition deleteTrack :: "string \<Rightarrow> (string \<times> track) list \<Rightarrow> (string \<times> track) list" where
  "deleteTrack trackId ts = filter (\<lambda>(k, t). k \<noteq> trackId) ts"

definition quoted :: "string \<Rightarrow> string" where
  "quoted s = [CHR 0x27] @ s @ [CHR 0x27]"

section \<open>Tempo and meter\<close>

definition calculateCellDuration :: "player \<Rightarrow> real" where
  "calculateCellDuration p =
     (let secondsPerWholeNote = 240 / bpm p
      in secondsPerWholeNote / subdivisionNoteValue p)"

definition getMaxColumns :: "player \<Rightarrow> real" where
  "getMaxColumns p =
     (let totalSubdivisionNotesInMeasure =
        timeSignatureNumerator p * (subdivisionNoteValue p / timeSignatureDenominator p)
      in totalSubdivisionNotesInMeasure)"

section \<open>Transport\<close>

definition play :: "audioContext \<Rightarrow> player \<Rightarrow> player \<times> effect list" where
  "play ctx p =
     (let resumed = (if suspended ctx then [ContextResume] else [])
      in if isPlaying p then (p, resumed)
         else
           let p1 = (if \<not> isPaused p
                     then p\<lparr> currentCellIndex := - 1, nextCellTime := currentTime ctx,
                            playbackTime := 0 \<rparr>
                     else p)
           in (p1\<lparr> isPlaying := True, isPaused := False \<rparr>,
               resumed @ [DispatchEvent EvPlay]))"

definition pause :: "audioContext \<Rightarrow> player \<Rightarrow> player \<times> effect list" where
  "pause ctx p =
     (if \<not> isPlaying p then (p, [])
      else
        let cellDuration = calculateCellDuration p;
            elapsed = real_of_int (currentCellIndex p) * cellDuration
                      + (currentTime ctx - (nextCellTime p - cellDuration))
        in (p\<lparr> isPlaying := False, isPaused := True, scheduledSources := [],
                playbackTime := (if elapsed < 0 then 0 else elapsed) \<rparr>,
            map SourceStop (scheduledSources p) @ [DispatchEvent EvPause]))"

definition stop :: "player \<Rightarrow> player \<times> effect list" where
  "stop p =
     (if \<not> isPlaying p \<and> \<not> isPaused p then (p, [])
      else (p\<lparr> isPlaying := False, isPaused := False, currentCellIndex := - 1,
               playbackTime := 0, scheduledSources := [] \<rparr>,
            map SourceStop (scheduledSources p)
            @ [DispatchEvent EvStop, DispatchEvent (GridCellChanged (- 1) 0)]))"

definition getStatus :: "player \<Rightarrow> bool \<times> bool" where
  "getStatus p = (isPlaying p, isPaused p)"

section \<open>Configuration\<close>

definition setBPM :: "real \<Rightarrow> player \<Rightarrow> player \<times> effect list" where
  "setBPM b p =
     (if isPlaying p \<or> isPaused p
      then (p, [ConsoleWarn ''Cannot change BPM while playing or paused. Please stop the player first.''])
      else if b \<le> 0 then (p, [ConsoleError ''BPM must be a positive number.''])
      else (p\<lparr> bpm := b \<rparr>, [DispatchEvent (BpmChanged b)]))"

definition setTimeSignature :: "real \<Rightarrow> real \<Rightarrow> player \<Rightarrow> player \<times> effect list" where
  "setTimeSignature numerator denominator p =
     (if isPlaying p \<or> isPaused p
      then (p, [ConsoleWarn ''Cannot change time signature while playing or paused. Please stop the player first.''])
      else if numerator \<le> 0 \<or> denominator \<le> 0
      then (p, [ConsoleError ''Time signature parts must be positive numbers.''])
      else (p\<lparr> timeSignatureNumerator := numerator, timeSignatureDenominator := denominator \<rparr>,
            [DispatchEvent (TimeSignatureChanged numerator denominator)]))"

definition setSubdivisionNoteValue :: "real \<Rightarrow> player \<Rightarrow> player \<times> effect list" where
  "setSubdivisionNoteValue v p =
     (if isPlaying p \<or> isPaused p
      then (p, [ConsoleWarn ''Cannot change subdivision while playing or paused. Please stop the player first.''])
      else if v \<notin> set [4, 8, 16, 32]
      then (p, [ConsoleError ''Subdivision note value must be 4, 8, 16, or 32.''])
      else (p\<lparr> subdivisionNoteValue := v \<rparr>, [DispatchEvent (SubdivisionChanged v)]))"

definition setLooping :: "bool \<Rightarrow> player \<Rightarrow> player \<times> effect list" where
  "setLooping l p = (p\<lparr> loop := l \<rparr>, [DispatchEvent (LoopingChanged l)])"

section \<open>Tracks and cells\<close>

definition addTrack :: "string \<Rightarrow> player \<Rightarrow> player \<times> effect list" where
  "addTrack trackId p =
     (if getTrack p trackId \<noteq> None
      then (p, [ConsoleWarn (''Track with ID '' @ quoted trackId @ '' already exists.'')])
      else (p\<lparr> tracks := tracks p
                 @ [(trackId, \<lparr> gain = 1, cells = Map.empty, isMuted = False, lastVolume = 1 \<rparr>)] \<rparr>,
            [DispatchEvent (TrackAdded trackId)]))"

definition removeTrack :: "string \<Rightarrow> player \<Rightarrow> player \<times> effect list" where
  "removeTrack trackId p =
     (if isPlaying p \<or> isPaused p
      then (p, [ConsoleWarn ''Cannot remove track while playing or paused. Please stop the player first.''])
      else if getTrack p trackId = None
      then (p, [ConsoleWarn (''Track with ID '' @ quoted trackId @ '' does not exist.'')])
      else (p\<lparr> tracks := deleteTrack trackId (tracks p) \<rparr>,
            [GainDisconnect trackId, DispatchEvent (TrackRemoved trackId)]))"

definition addAudioToGrid :: "string \<Rightarrow> int \<Rightarrow> placement \<Rightarrow> player \<Rightarrow> player \<times> effect list" where
  "addAudioToGrid trackId columnIndex audio p =
     (if isPlaying p \<or> isPaused p
      then (p, [ConsoleWarn ''Cannot add audio to grid while playing or paused. Please stop the player first.''])
      else if getTrack p trackId = None
      then (p, [ConsoleError (''Track with ID '' @ quoted trackId @ '' does not exist.'')])
      else if columnIndex < 0
      then (p, [ConsoleError ''Column index must be non-negative.''])
      else (p\<lparr> tracks := modifyTrack trackId
                   (\<lambda>t. t\<lparr> cells := (cells t)(columnIndex \<mapsto> audio) \<rparr>) (tracks p) \<rparr>,
            [DispatchEvent (AudioAddedToGrid trackId columnIndex audio)]))"

definition removeAudioFromGrid :: "string \<Rightarrow> int \<Rightarrow> player \<Rightarrow> player \<times> effect list" where
  "removeAudioFromGrid trackId columnIndex p =
     (if isPlaying p \<or> isPaused p
      then (p, [ConsoleWarn ''Cannot remove audio from grid while playing or paused. Please stop the player first.''])
      else case getTrack p trackId of
        None \<Rightarrow> (p, [ConsoleWarn (''Track with ID '' @ quoted trackId @ '' does not exist.'')])
      | Some t \<Rightarrow>
          (p\<lparr> tracks := modifyTrack trackId
                 (\<lambda>t. t\<lparr> cells := (cells t)(columnIndex := None) \<rparr>) (tracks p) \<rparr>,
           if cells t columnIndex \<noteq> None
           then [DispatchEvent (AudioRemovedFromGrid trackId columnIndex)] else []))"

section \<open>Gain and mute\<close>

definition clampVolume :: "real \<Rightarrow> real" where
  "clampVolume volume = max 0 (min 1 volume)"

definition setTrackVolume :: "string \<Rightarrow> real \<Rightarrow> player \<Rightarrow> player \<times> effect list" where
  "setTrackVolume trackId volume p =
     (case getTrack p trackId of
        None \<Rightarrow> (p, [ConsoleWarn (''Track with ID '' @ quoted trackId @ '' does not exist.'')])
      | Some t \<Rightarrow>
          let outOfRange = (volume < 0 \<or> volume > 1);
              v = (if outOfRange then clampVolume volume else volume)
          in (p\<lparr> tracks := modifyTrack trackId
                   (\<lambda>t. (if \<not> isMuted t then t\<lparr> gain := v \<rparr> else t)\<lparr> lastVolume := v \<rparr>)
                   (tracks p) \<rparr>,
              (if outOfRange then [ConsoleWarn ''Volume must be between 0.0 and 1.0.''] else [])
              @ [DispatchEvent (TrackVolumeChanged trackId v)]))"

definition setTrackMuted :: "string \<Rightarrow> bool \<Rightarrow> player \<Rightarrow> player \<times> effect list" where
  "setTrackMuted trackId muted p =
     (case getTrack p trackId of
        None \<Rightarrow> (p, [ConsoleWarn (''Track with ID '' @ quoted trackId @ '' does not exist.'')])
      | Some t \<Rightarrow>
          (p\<lparr> tracks := modifyTrack trackId
                 (\<lambda>t. let t1 = t\<lparr> isMuted := muted \<rparr>
                      in if muted then t1\<lparr> gain := 0 \<rparr> else t1\<lparr> gain := lastVolume t1 \<rparr>)
                 (tracks p) \<rparr>,
           [DispatchEvent (TrackMuteChanged trackId muted)]))"

definition setMasterVolume :: "real \<Rightarrow> player \<Rightarrow> player \<times> effect list" where
  "setMasterVolume volume p =
     (let outOfRange = (volume < 0 \<or> volume > 1);
          v = (if outOfRange then clampVolume volume else volume)
      in (p\<lparr> masterGain := v \<rparr>,
          (if outOfRange then [ConsoleWarn ''Master volume must be between 0.0 and 1.0.''] else [])
          @ [DispatchEvent (MasterVolumeChanged v)]))"

section \<open>The look-ahead scheduler\<close>

text \<open>
  The \<open>forEach\<close> over the tracks inside \<open>_scheduleAudio\<close>: the sources it starts, in
  iteration order, and the exception that ended it, if any. A muted track is passed over,
  and so is a cell that is missing or holds a falsy value (\<open>if (audioBuffer)\<close>). A decoded
  buffer gives one source: created, given the buffer, connected to the gain node of the
  track, added to the set and started at the deadline. For any other object the assignment
  to \<open>source.buffer\<close> raises \<open>TypeError\<close> before the source is connected, recorded or
  started; nothing catches it, so the tracks after it are not visited.
\<close>

fun scheduleTracks ::
  "real \<Rightarrow> int \<Rightarrow> (string \<times> track) list \<Rightarrow> bufferSource list \<times> error option" where
  "scheduleTracks deadline columnIndex [] = ([], None)"
| "scheduleTracks deadline columnIndex ((trackId, t) # ts) =
     (if \<not> isMuted t
      then (case cells t columnIndex of
              None \<Rightarrow> scheduleTracks deadline columnIndex ts
            | Some Null \<Rightarrow> scheduleTracks deadline columnIndex ts
            | Some (Single b) \<Rightarrow>
                (\<lparr> buffer = b, connectedTo = trackId, startAt = deadline \<rparr>
                   # fst (scheduleTracks deadline columnIndex ts),
                 snd (scheduleTracks deadline columnIndex ts))
            | Some (Combined a b m) \<Rightarrow> ([], Some TypeError))
      else scheduleTracks deadline columnIndex ts)"

text \<open>
  One pass through the body of the \<open>while\<close> loop. \<open>Return\<close> is the early
  \<open>return\<close> after \<open>this.stop()\<close>; \<open>Next\<close> goes back to the loop condition;
  \<open>Throw\<close> is an exception that leaves the loop and the method, after the column
  pointer has moved and the column has been announced, before the deadline is advanced.
\<close>

datatype 'a flow = Return 'a | Next 'a | Throw error 'a

definition scheduleCell :: "real \<Rightarrow> real \<Rightarrow> player \<Rightarrow> (player \<times> effect list) flow" where
  "scheduleCell cellDuration maxColumns p =
     (let p1 = p\<lparr> currentCellIndex := currentCellIndex p + 1 \<rparr>;
          atEnd = (maxColumns > 0 \<and> real_of_int (currentCellIndex p1) \<ge> maxColumns)
      in if atEnd \<and> \<not> loop p1 then Return (stop p1)
         else
           let p2 = (if atEnd then p1\<lparr> currentCellIndex := 0 \<rparr> else p1);
               scheduled = scheduleTracks (nextCellTime p2) (currentCellIndex p2) (tracks p2);
               p3 = p2\<lparr> scheduledSources := scheduledSources p2 @ fst scheduled \<rparr>;
               es = DispatchEvent (GridCellChanged (currentCellIndex p2) (nextCellTime p2))
                    # map SourceStart (fst scheduled)
           in case snd scheduled of
                None \<Rightarrow> Next (p3\<lparr> nextCellTime := nextCellTime p2 + cellDuration \<rparr>, es)
              | Some e \<Rightarrow> Throw e (p3, es))"

text \<open>
  How a call of \<open>_scheduleAudio\<close> ends: it returns, or an exception leaves it. Either
  way the player is left as the passes made so far have changed it.
\<close>

datatype 'a completion = Returns 'a | Throws error 'a

fun completed :: "'a completion \<Rightarrow> 'a" where
  "completed (Returns x) = x"
| "completed (Throws e x) = x"

text \<open>
  The \<open>while\<close> loop. It need not end (a cell duration that is not positive never moves
  the deadline past the horizon), so the result is optional: \<open>None\<close> is a tick that
  never returns. The last argument collects the effects of the passes already made.
\<close>

partial_function (option) scheduleLoop ::
  "real \<Rightarrow> real \<Rightarrow> real \<Rightarrow> player \<Rightarrow> effect list \<Rightarrow> (player \<times> effect list) completion option" where
  "scheduleLoop now cellDuration maxColumns p emitted =
     (if nextCellTime p < now + lookAheadTime
      then (case scheduleCell cellDuration maxColumns p of
              Return (p', es) \<Rightarrow> Some (Returns (p', emitted @ es))
            | Next (p', es) \<Rightarrow> scheduleLoop now cellDuration maxColumns p' (emitted @ es)
            | Throw e (p', es) \<Rightarrow> Some (Throws e (p', emitted @ es)))
      else Some (Returns (p, emitted)))"

definition scheduleAudio :: "audioContext \<Rightarrow> player \<Rightarrow> (player \<times> effect list) completion option" where
  "scheduleAudio ctx p =
     (if \<not> isPlaying p then Some (Returns (p, []))
      else scheduleLoop (currentTime ctx) (calculateCellDuration p) (getMaxColumns p) p [])"

text \<open>The \<open>onended\<close> callback of a source: it leaves the set of scheduled sources.\<close>

definition sourceEnded :: "bufferSource \<Rightarrow> player \<Rightarrow> player" where
  "sourceEnded s p = p\<lparr> scheduledSources := remove1 s (scheduledSources p) \<rparr>"

section \<open>Sequences of calls\<close>

text \<open>
  The public methods as values, so that statements can range over "any operation" and
  "any sequence of operations". \<open>perform\<close> makes the call.
\<close>

datatype call =
    CallPlay
  | CallPause
  | CallStop
  | CallSetBPM real
  | CallSetTimeSignature real real
  | CallSetSubdivisionNoteValue real
  | CallSetLooping bool
  | CallAddTrack string
  | CallRemoveTrack string
  | CallAddAudioToGrid string int placement
  | CallRemoveAudioFromGrid string int
  | CallSetTrackVolume string real
  | CallSetTrackMuted string bool
  | CallSetMasterVolume real

fun perform :: "audioContext \<Rightarrow> call \<Rightarrow> player \<Rightarrow> player \<times> effect list" where
  "perform ctx CallPlay p = play ctx p"
| "perform ctx CallPause p = pause ctx p"
| "perform ctx CallStop p = stop p"
| "perform ctx (CallSetBPM b) p = setBPM b p"
| "perform ctx (CallSetTimeSignature n d) p = setTimeSignature n d p"
| "perform ctx (CallSetSubdivisionNoteValue v) p = setSubdivisionNoteValue v p"
| "perform ctx (CallSetLooping l) p = setLooping l p"
| "perform ctx (CallAddTrack i) p = addTrack i p"
| "perform ctx (CallRemoveTrack i) p = removeTrack i p"
| "perform ctx (CallAddAudioToGrid i c a) p = addAudioToGrid i c a p"
| "perform ctx (CallRemoveAudioFromGrid i c) p = removeAudioFromGrid i c p"
| "perform ctx (CallSetTrackVolume i v) p = setTrackVolume i v p"
| "perform ctx (CallSetTrackMuted i m) p = setTrackMuted i m p"
| "perform ctx (CallSetMasterVolume v) p = setMasterVolume v p"

text \<open>
  The states a player can be in: the fresh one, and any state a public call, a timer
  tick that ends (by returning or by an exception), or the end of a scheduled sound leads
  to, at any clock reading.
\<close>

inductive reachable :: "player \<Rightarrow> bool" where
  fresh: "reachable newPlayer"
| call: "reachable p \<Longrightarrow> reachable (fst (perform ctx c p))"
| tick: "reachable p \<Longrightarrow> scheduleAudio ctx p = Some c \<Longrightarrow> reachable (fst (completed c))"
| ended: "reachable p \<Longrightarrow> reachable (sourceEnded s p)"

text \<open>The three transport states, read off the two flags as the guards of the code do.\<close>

definition isStopped :: "player \<Rightarrow> bool" where
  "isStopped p = (\<not> isPlaying p \<and> \<not> isPaused p)"

section \<open>Reading the effects of a call\<close>

text \<open>The events raised, the console messages reported, and the sounds triggered.\<close>

fun notifications :: "effect list \<Rightarrow> event list" where
  "notifications [] = []"
| "notifications (DispatchEvent e # es) = e # notifications es"
| "notifications (x # es) = notifications es"

fun diagnostics :: "effect list \<Rightarrow> string list" where
  "diagnostics [] = []"
| "diagnostics (ConsoleWarn m # es) = m # diagnostics es"
| "diagnostics (ConsoleError m # es) = m # diagnostics es"
| "diagnostics (x # es) = diagnostics es"

fun triggers :: "effect list \<Rightarrow> bufferSource list" where
  "triggers [] = []"
| "triggers (SourceStart s # es) = s # triggers es"
| "triggers (x # es) = triggers es"

fun cancelled :: "effect list \<Rightarrow> bufferSource list" where
  "cancelled [] = []"
| "cancelled (SourceStop s # es) = s # cancelled es"
| "cancelled (x # es) = cancelled es"

text \<open>The calls whose first statement is the guard on \<open>_isPlaying || _isPaused\<close>.\<close>

fun stoppedOnly :: "call \<Rightarrow> bool" where
  "stoppedOnly (CallSetBPM b) = True"
| "stoppedOnly (CallSetTimeSignature n d) = True"
| "stoppedOnly (CallSetSubdivisionNoteValue v) = True"
| "stoppedOnly (CallRemoveTrack i) = True"
| "stoppedOnly (CallAddAudioToGrid i c a) = True"
| "stoppedOnly (CallRemoveAudioFromGrid i c) = True"
| "stoppedOnly c = False"

section \<open>Facts about effect lists\<close>

lemma notifications_append: "notifications (xs @ ys) = notifications xs @ notifications ys"
  by (induction xs rule: notifications.induct) simp_all

lemma notifications_SourceStop: "notifications (map SourceStop ss) = []"
  by (induction ss) simp_all


lemma triggers_append: "triggers (xs @ ys) = triggers xs @ triggers ys"
  by (induction xs rule: triggers.induct) simp_all


lemma triggers_SourceStop: "triggers (map SourceStop ss) = []"
  by (induction ss) simp_all

lemma cancelled_append: "cancelled (xs @ ys) = cancelled xs @ cancelled ys"
  by (induction xs rule: cancelled.induct) simp_all

lemma cancelled_SourceStop: "cancelled (map SourceStop ss) = ss"
  by (induction ss) simp_all

section \<open>Facts about the registry and the scheduler\<close>

lemma map_of_modifyTrack:
  "map_of (modifyTrack trackId f ts) k
     = (if k = trackId then map_option f (map_of ts k) else map_of ts k)"
  by (induction ts) (auto simp: modifyTrack_def)

lemma getTrack_tracks_update:
  "getTrack (p\<lparr> tracks := modifyTrack trackId f (tracks p) \<rparr>) k
     = (if k = trackId then map_option f (getTrack p k) else getTrack p k)"
  by (simp add: getTrack_def map_of_modifyTrack)

lemma scheduleCell_Return_flags:
  assumes "scheduleCell cd mc p = Return (p', es)"
  shows "\<not> isPlaying p' \<and> \<not> isPaused p'"
  using assms by (auto simp: scheduleCell_def stop_def Let_def split: if_splits option.splits)

lemma scheduleCell_Throw_flags:
  assumes "scheduleCell cd mc p = Throw e (p', es)"
  shows "isPlaying p' = isPlaying p \<and> isPaused p' = isPaused p"
  using assms by (auto simp: scheduleCell_def Let_def split: if_splits option.splits)

lemma scheduleCell_Next_fields:
  assumes "scheduleCell cd mc p = Next (p', es)"
  shows "isPlaying p' = isPlaying p" and "isPaused p' = isPaused p"
    and "nextCellTime p' = nextCellTime p + cd" and "tracks p' = tracks p"
  using assms by (auto simp: scheduleCell_def Let_def split: if_splits option.splits)


lemma scheduleTracks_Cons_cases:
  obtains (skipped) "isMuted t \<or> cells t col = None \<or> cells t col = Some Null"
      and "scheduleTracks deadline col ((k, t) # ts) = scheduleTracks deadline col ts"
  | (buffer) b where "\<not> isMuted t" and "cells t col = Some (Single b)"
      and "scheduleTracks deadline col ((k, t) # ts)
           = (\<lparr> buffer = b, connectedTo = k, startAt = deadline \<rparr>
                # fst (scheduleTracks deadline col ts),
              snd (scheduleTracks deadline col ts))"
  | (object) a b m where "\<not> isMuted t" and "cells t col = Some (Combined a b m)"
      and "scheduleTracks deadline col ((k, t) # ts) = ([], Some TypeError)"
proof (cases "isMuted t")
  case True
  then show ?thesis by (intro skipped) simp_all
next
  case False
  show ?thesis
  proof (cases "cells t col")
    case None
    then show ?thesis by (intro skipped) simp_all
  next
    case (Some v)
    show ?thesis
    proof (cases v)
      case Null
      with Some show ?thesis by (intro skipped) simp_all
    next
      case (Single b)
      with Some False show ?thesis by (intro buffer [of b]) simp_all
    next
      case (Combined a b m)
      with Some False show ?thesis by (intro object [of a b m]) simp_all
    qed
  qed
qed




text \<open>
  A registry whose cells hold nothing but buffers and falsy values, as the documentation
  of \<open>addAudioToGrid\<close> has it, raises no exception, so that a pass on a looping player
  goes back to the loop condition.
\<close>

lemma scheduleTracks_buffers_only:
  assumes "\<And>k t a b m. (k, t) \<in> set ts \<Longrightarrow> cells t col \<noteq> Some (Combined a b m)"
  shows "snd (scheduleTracks deadline col ts) = None"
  using assms
proof (induction ts)
  case Nil
  show ?case by simp
next
  case (Cons kt ts)
  obtain k t where kt: "kt = (k, t)" by (cases kt)
  have tl: "cells t col \<noteq> Some (Combined a b m)" if "(k, t) \<in> set ts" for k t a b m
    using Cons.prems [of k t a b m] that by simp
  have IH: "snd (scheduleTracks deadline col ts) = None" by (rule Cons.IH) (rule tl)
  from Cons.prems [of k t] kt have hd: "\<And>a b m. cells t col \<noteq> Some (Combined a b m)" by simp
  show ?case
    by (cases rule: scheduleTracks_Cons_cases [of t col deadline k ts])
       (use IH hd kt in \<open>simp_all del: scheduleTracks.simps\<close>)
qed

lemma scheduleCell_buffers_only:
  assumes "\<And>k t c a b m. (k, t) \<in> set (tracks p) \<Longrightarrow> cells t c \<noteq> Some (Combined a b m)"
    and "loop p"
  shows "\<exists>p' es. scheduleCell cd mc p = Next (p', es)"
proof -
  have "snd (scheduleTracks deadline col (tracks p)) = None" for deadline col
    by (rule scheduleTracks_buffers_only) (rule assms(1))
  with assms(2) show ?thesis by (simp add: scheduleCell_def Let_def)
qed

lemma scheduleLoop_returns:
  assumes "0 < cd"
  shows "\<exists>r. scheduleLoop now cd mc p emitted = Some r"
proof -
  obtain n where "(now + lookAheadTime - nextCellTime p) / cd < real n"
    using reals_Archimedean2 by blast
  with assms have "now + lookAheadTime \<le> nextCellTime p + real n * cd"
    by (simp add: field_simps)
  then show ?thesis
  proof (induction n arbitrary: p emitted)
    case 0
    then show ?case by (subst scheduleLoop.simps) simp
  next
    case (Suc n)
    show ?case
    proof (cases "nextCellTime p < now + lookAheadTime")
      case False
      then show ?thesis by (subst scheduleLoop.simps) simp
    next
      case True
      show ?thesis
      proof (cases "scheduleCell cd mc p")
        case (Return x)
        with True show ?thesis by (subst scheduleLoop.simps) (simp split: prod.splits)
      next
        case (Throw e x)
        with True show ?thesis by (subst scheduleLoop.simps) (simp split: prod.splits)
      next
        case (Next x)
        obtain p' es where x: "x = (p', es)" by (cases x)
        from scheduleCell_Next_fields(3) [of cd mc p p' es] Next x
        have "nextCellTime p' = nextCellTime p + cd" by simp
        with Suc.prems have "now + lookAheadTime \<le> nextCellTime p' + real n * cd"
          by (simp add: algebra_simps)
        from Suc.IH [OF this] obtain r where "scheduleLoop now cd mc p' (emitted @ es) = Some r"
          by blast
        with True Next x show ?thesis by (subst scheduleLoop.simps) simp
      qed
    qed
  qed
qed

lemma scheduleAudio_returns:
  assumes "0 < bpm p" and "0 < subdivisionNoteValue p"
  shows "\<exists>r. scheduleAudio ctx p = Some r"
proof -
  from assms have "0 < calculateCellDuration p" by (simp add: calculateCellDuration_def)
  from scheduleLoop_returns [OF this] show ?thesis by (simp add: scheduleAudio_def)
qed

lemma scheduleCell_configuration:
  assumes "scheduleCell cd mc p = Next (p', es) \<or> scheduleCell cd mc p = Return (p', es)
         \<or> scheduleCell cd mc p = Throw e (p', es)"
  shows "bpm p' = bpm p \<and> timeSignatureNumerator p' = timeSignatureNumerator p
       \<and> timeSignatureDenominator p' = timeSignatureDenominator p
       \<and> subdivisionNoteValue p' = subdivisionNoteValue p \<and> tracks p' = tracks p"
  using assms by (auto simp: scheduleCell_def stop_def Let_def split: if_splits option.splits)

lemma scheduleLoop_preserves:
  assumes "scheduleLoop now cd mc p emitted = Some r" and "I p"
    and "\<And>q q' es. I q \<Longrightarrow> scheduleCell cd mc q = Next (q', es) \<Longrightarrow> I q'"
    and "\<And>q q' es. I q \<Longrightarrow> scheduleCell cd mc q = Return (q', es) \<Longrightarrow> I q'"
    and "\<And>q q' e es. I q \<Longrightarrow> scheduleCell cd mc q = Throw e (q', es) \<Longrightarrow> I q'"
  shows "I (fst (completed r))"
proof -
  have "cd = cd \<longrightarrow> mc = mc \<longrightarrow> I p \<longrightarrow> I (fst (completed r))"
  proof (rule scheduleLoop.raw_induct
      [where P = "\<lambda>t cd' mc' q acc r. cd' = cd \<longrightarrow> mc' = mc \<longrightarrow> I q \<longrightarrow> I (fst (completed r))",
       OF _ assms(1)], goal_cases)
    case (1 f t cd' mc' q acc r)
    show ?case
    proof (intro impI)
      assume eq: "cd' = cd" "mc' = mc" and q: "I q"
      show "I (fst (completed r))"
      proof (cases "nextCellTime q < t + lookAheadTime")
        case False
        with 1(2) q show ?thesis by auto
      next
        case True
        show ?thesis
        proof (cases "scheduleCell cd mc q")
          case (Return x)
          obtain q' es where x: "x = (q', es)" by (cases x)
          from 1(2) True Return x eq have "r = Returns (q', acc @ es)" by simp
          with assms(4) [OF q, of q' es] Return x show ?thesis by simp
        next
          case (Throw e x)
          obtain q' es where x: "x = (q', es)" by (cases x)
          from 1(2) True Throw x eq have "r = Throws e (q', acc @ es)" by simp
          with assms(5) [OF q, of e q' es] Throw x show ?thesis by simp
        next
          case (Next x)
          obtain q' es where x: "x = (q', es)" by (cases x)
          from 1(2) True Next x eq have "f t cd mc q' (acc @ es) = Some r" by simp
          from 1(1) [OF this] assms(3) [OF q, of q' es] Next x show ?thesis by simp
        qed
      qed
    qed
  qed
  with assms(2) show ?thesis by simp
qed

lemma scheduleAudio_preserves:
  assumes "scheduleAudio ctx p = Some c" and "I p"
    and "\<And>cd mc q q' es. I q \<Longrightarrow> scheduleCell cd mc q = Next (q', es) \<Longrightarrow> I q'"
    and "\<And>cd mc q q' es. I q \<Longrightarrow> scheduleCell cd mc q = Return (q', es) \<Longrightarrow> I q'"
    and "\<And>cd mc q q' e es. I q \<Longrightarrow> scheduleCell cd mc q = Throw e (q', es) \<Longrightarrow> I q'"
  shows "I (fst (completed c))"
proof (cases "isPlaying p")
  case False
  with assms(1,2) show ?thesis by (auto simp: scheduleAudio_def)
next
  case True
  with assms(1)
  have "scheduleLoop (currentTime ctx) (calculateCellDuration p) (getMaxColumns p) p [] = Some c"
    by (simp add: scheduleAudio_def)
  from scheduleLoop_preserves [where I = I, OF this assms(2) assms(3) assms(4) assms(5)]
  show ?thesis by simp
qed

lemma perform_partition:
  assumes "\<not> (isPlaying p \<and> isPaused p)"
  shows "\<not> (isPlaying (fst (perform ctx c p)) \<and> isPaused (fst (perform ctx c p)))"
  using assms
  by (cases c)
     (auto simp: play_def pause_def stop_def setBPM_def setTimeSignature_def
        setSubdivisionNoteValue_def setLooping_def addTrack_def removeTrack_def
        addAudioToGrid_def removeAudioFromGrid_def setTrackVolume_def setTrackMuted_def
        setMasterVolume_def Let_def split: option.splits if_splits)

lemma reachable_partition:
  assumes "reachable p"
  shows "\<not> (isPlaying p \<and> isPaused p)"
  using assms
proof (induction rule: reachable.induct)
  case fresh
  show ?case by (simp add: newPlayer_def)
next
  case (call p ctx c)
  from call.IH show ?case by (rule perform_partition)
next
  case (tick p ctx c)
  show ?case
  proof (rule scheduleAudio_preserves [where I = "\<lambda>q::player. \<not> (isPlaying q \<and> isPaused q)", OF tick(2,3)])
    fix cd mc and q q' :: player and es e
    assume q: "\<not> (isPlaying q \<and> isPaused q)"
    show "scheduleCell cd mc q = Next (q', es) \<Longrightarrow> \<not> (isPlaying q' \<and> isPaused q')"
      using scheduleCell_Next_fields(1,2) [of cd mc q q' es] q by simp
    show "scheduleCell cd mc q = Return (q', es) \<Longrightarrow> \<not> (isPlaying q' \<and> isPaused q')"
      using scheduleCell_Return_flags [of cd mc q q' es] by simp
    show "scheduleCell cd mc q = Throw e (q', es) \<Longrightarrow> \<not> (isPlaying q' \<and> isPaused q')"
      using scheduleCell_Throw_flags [of cd mc q e q' es] q by simp
  qed
next
  case (ended p s)
  then show ?case by (simp add: sourceEnded_def)
qed

lemma perform_configuration:
  assumes "0 < bpm p \<and> 0 < timeSignatureNumerator p \<and> 0 < timeSignatureDenominator p
         \<and> subdivisionNoteValue p \<in> {4, 8, 16, 32}"
  shows "0 < bpm (fst (perform ctx c p)) \<and> 0 < timeSignatureNumerator (fst (perform ctx c p))
       \<and> 0 < timeSignatureDenominator (fst (perform ctx c p))
       \<and> subdivisionNoteValue (fst (perform ctx c p)) \<in> {4, 8, 16, 32}"
  using assms
  by (cases c)
     (auto simp: play_def pause_def stop_def setBPM_def setTimeSignature_def
        setSubdivisionNoteValue_def setLooping_def addTrack_def removeTrack_def
        addAudioToGrid_def removeAudioFromGrid_def setTrackVolume_def setTrackMuted_def
        setMasterVolume_def Let_def split: option.splits if_splits)

text \<open>
  Every reachable player has a positive tempo and meter and a supported subdivision, its
  track ids are distinct, and a timer tick on it returns.
\<close>

lemma reachable_configuration:
  assumes "reachable p"
  shows "0 < bpm p \<and> 0 < timeSignatureNumerator p \<and> 0 < timeSignatureDenominator p
       \<and> subdivisionNoteValue p \<in> {4, 8, 16, 32}"
  using assms
proof (induction rule: reachable.induct)
  case fresh
  show ?case by (simp add: newPlayer_def)
next
  case (call p ctx c)
  from call.IH show ?case by (rule perform_configuration)
next
  case (tick p ctx c)
  show ?case
  proof (rule scheduleAudio_preserves [where I = "\<lambda>q::player. 0 < bpm q \<and> 0 < timeSignatureNumerator q
          \<and> 0 < timeSignatureDenominator q \<and> subdivisionNoteValue q \<in> {4, 8, 16, 32}",
          OF tick(2,3)])
    fix cd mc and q q' :: player and es e
    assume q: "0 < bpm q \<and> 0 < timeSignatureNumerator q
          \<and> 0 < timeSignatureDenominator q \<and> subdivisionNoteValue q \<in> {4, 8, 16, 32}"
    show "scheduleCell cd mc q = Throw e (q', es) \<Longrightarrow> 0 < bpm q' \<and> 0 < timeSignatureNumerator q'
          \<and> 0 < timeSignatureDenominator q' \<and> subdivisionNoteValue q' \<in> {4, 8, 16, 32}"
      using scheduleCell_configuration [of cd mc q q' es e] q by simp
    show "scheduleCell cd mc q = Next (q', es) \<Longrightarrow> 0 < bpm q' \<and> 0 < timeSignatureNumerator q'
          \<and> 0 < timeSignatureDenominator q' \<and> subdivisionNoteValue q' \<in> {4, 8, 16, 32}"
      using scheduleCell_configuration [of cd mc q q' es] q by simp
    show "scheduleCell cd mc q = Return (q', es) \<Longrightarrow> 0 < bpm q' \<and> 0 < timeSignatureNumerator q'
          \<and> 0 < timeSignatureDenominator q' \<and> subdivisionNoteValue q' \<in> {4, 8, 16, 32}"
      using scheduleCell_configuration [of cd mc q q' es] q by simp
  qed
next
  case (ended p s)
  then show ?case by (simp add: sourceEnded_def)
qed

lemma map_fst_modifyTrack: "map fst (modifyTrack trackId f ts) = map fst ts"
  by (induction ts) (auto simp: modifyTrack_def)

lemma distinct_deleteTrack: "distinct (map fst ts) \<Longrightarrow> distinct (map fst (deleteTrack trackId ts))"
  by (simp add: deleteTrack_def distinct_map_filter)

lemma addTrack_distinct_tracks:
  "distinct (map fst (tracks p)) \<Longrightarrow> distinct (map fst (tracks (fst (addTrack i p))))"
  by (simp add: addTrack_def getTrack_def map_of_eq_None_iff)

lemma removeTrack_distinct_tracks:
  "distinct (map fst (tracks p)) \<Longrightarrow> distinct (map fst (tracks (fst (removeTrack i p))))"
  by (simp add: removeTrack_def distinct_deleteTrack)

lemma addAudioToGrid_track_ids:
  "map fst (tracks (fst (addAudioToGrid i c a p))) = map fst (tracks p)"
  by (simp add: addAudioToGrid_def map_fst_modifyTrack)

lemma removeAudioFromGrid_track_ids:
  "map fst (tracks (fst (removeAudioFromGrid i c p))) = map fst (tracks p)"
  by (simp add: removeAudioFromGrid_def map_fst_modifyTrack split: option.split)

lemma setTrackVolume_track_ids:
  "map fst (tracks (fst (setTrackVolume i v p))) = map fst (tracks p)"
  by (simp add: setTrackVolume_def Let_def map_fst_modifyTrack split: option.split)

lemma setTrackMuted_track_ids:
  "map fst (tracks (fst (setTrackMuted i m p))) = map fst (tracks p)"
  by (simp add: setTrackMuted_def map_fst_modifyTrack split: option.split)

lemma perform_distinct_tracks:
  assumes "distinct (map fst (tracks p))"
  shows "distinct (map fst (tracks (fst (perform ctx c p))))"
proof (cases c)
  case (CallAddTrack i)
  with assms show ?thesis by (simp add: addTrack_distinct_tracks)
next
  case (CallRemoveTrack i)
  with assms show ?thesis by (simp add: removeTrack_distinct_tracks)
next
  case (CallAddAudioToGrid i col a)
  with assms show ?thesis by (simp add: addAudioToGrid_track_ids)
next
  case (CallRemoveAudioFromGrid i col)
  with assms show ?thesis by (simp add: removeAudioFromGrid_track_ids)
next
  case (CallSetTrackVolume i v)
  with assms show ?thesis by (simp add: setTrackVolume_track_ids)
next
  case (CallSetTrackMuted i m)
  with assms show ?thesis by (simp add: setTrackMuted_track_ids)
qed (use assms in \<open>simp_all add: play_def pause_def stop_def setBPM_def setTimeSignature_def
       setSubdivisionNoteValue_def setLooping_def setMasterVolume_def Let_def\<close>)

lemma reachable_distinct_tracks:
  assumes "reachable p"
  shows "distinct (map fst (tracks p))"
  using assms
proof (induction rule: reachable.induct)
  case fresh
  show ?case by (simp add: newPlayer_def)
next
  case (call p ctx c)
  from call.IH show ?case by (rule perform_distinct_tracks)
next
  case (tick p ctx c)
  show ?case
  proof (rule scheduleAudio_preserves [where I = "\<lambda>q::player. distinct (map fst (tracks q))", OF tick(2,3)])
    fix cd mc and q q' :: player and es e
    assume q: "distinct (map fst (tracks q))"
    show "scheduleCell cd mc q = Throw e (q', es) \<Longrightarrow> distinct (map fst (tracks q'))"
      using scheduleCell_configuration [of cd mc q q' es e] q by simp
    show "scheduleCell cd mc q = Next (q', es) \<Longrightarrow> distinct (map fst (tracks q'))"
      using scheduleCell_configuration [of cd mc q q' es] q by simp
    show "scheduleCell cd mc q = Return (q', es) \<Longrightarrow> distinct (map fst (tracks q'))"
      using scheduleCell_configuration [of cd mc q q' es] q by simp
  qed
next
  case (ended p s)
  then show ?case by (simp add: sourceEnded_def)
qed

lemma reachable_tick_returns:
  assumes "reachable p"
  shows "\<exists>r. scheduleAudio ctx p = Some r"
proof -
  from reachable_configuration [OF assms]
  have "0 < bpm p" and "0 < subdivisionNoteValue p" by auto
  then show ?thesis by (rule scheduleAudio_returns)
qed

section \<open>Tempo and meter arithmetic\<close>

text \<open>
  C4. For a positive BPM and a subdivision note value among 4, 8, 16 and 32, the cell
  duration is \<open>240 / (BPM * S)\<close> seconds, and the time signature has no part in it:
  changing numerator and denominator leaves the duration as it was.
\<close>

theorem calculateCellDuration_formula:
  assumes "0 < bpm p" and "subdivisionNoteValue p \<in> {4, 8, 16, 32}"
  shows "calculateCellDuration p = 240 / (bpm p * subdivisionNoteValue p)
       \<and> calculateCellDuration (p\<lparr> timeSignatureNumerator := n, timeSignatureDenominator := d \<rparr>)
         = calculateCellDuration p"
  by (simp add: calculateCellDuration_def)

theorem calculateCellDuration_formula_witness:
  "0 < bpm newPlayer \<and> subdivisionNoteValue newPlayer \<in> {4, 8, 16, 32}
   \<and> calculateCellDuration newPlayer = 1 / 8
   \<and> calculateCellDuration (newPlayer\<lparr> timeSignatureNumerator := 6, timeSignatureDenominator := 8 \<rparr>) = 1 / 8"
proof -
  have b: "0 < bpm newPlayer" by (simp add: newPlayer_def)
  have s: "subdivisionNoteValue newPlayer \<in> {4, 8, 16, 32}" by (simp add: newPlayer_def)
  from calculateCellDuration_formula [OF b s, where n = 6 and d = 8] b s show ?thesis
    by (simp add: newPlayer_def)
qed

text \<open>
  C5. For a positive numerator \<open>N\<close> and denominator \<open>D\<close> and a subdivision note value
  \<open>S\<close> that is a multiple \<open>k * D\<close> of the denominator, the number of columns in a
  measure is \<open>N * (S / D)\<close>, that is \<open>N * k\<close>.
\<close>

theorem getMaxColumns_formula:
  assumes "0 < timeSignatureNumerator p" and "0 < timeSignatureDenominator p"
    and "subdivisionNoteValue p = real_of_int k * timeSignatureDenominator p"
  shows "getMaxColumns p = timeSignatureNumerator p * (subdivisionNoteValue p / timeSignatureDenominator p)
       \<and> getMaxColumns p = timeSignatureNumerator p * real_of_int k"
  using assms by (simp add: getMaxColumns_def)

theorem getMaxColumns_formula_witness:
  "0 < timeSignatureNumerator (fst (setTimeSignature 6 8 newPlayer))
   \<and> 0 < timeSignatureDenominator (fst (setTimeSignature 6 8 newPlayer))
   \<and> subdivisionNoteValue (fst (setTimeSignature 6 8 newPlayer))
       = real_of_int 2 * timeSignatureDenominator (fst (setTimeSignature 6 8 newPlayer))
   \<and> getMaxColumns (fst (setTimeSignature 6 8 newPlayer)) = 12"
proof -
  let ?p = "fst (setTimeSignature 6 8 newPlayer)"
  have n: "0 < timeSignatureNumerator ?p" by (simp add: setTimeSignature_def newPlayer_def)
  have d: "0 < timeSignatureDenominator ?p" by (simp add: setTimeSignature_def newPlayer_def)
  have s: "subdivisionNoteValue ?p = real_of_int 2 * timeSignatureDenominator ?p"
    by (simp add: setTimeSignature_def newPlayer_def)
  from getMaxColumns_formula [OF n d s] n d s show ?thesis
    by (simp add: setTimeSignature_def newPlayer_def)
qed

section \<open>Duplicate track ids\<close>

text \<open>
  C10. In any state, \<open>addTrack\<close> with an id the registry already holds changes nothing:
  the player, and with it the track stored under that id, is as before, the warning
  "already exists" is reported, and no event is raised.
\<close>

theorem addTrack_existing_rejected:
  assumes "getTrack p trackId \<noteq> None"
  shows "fst (addTrack trackId p) = p
       \<and> getTrack (fst (addTrack trackId p)) trackId = getTrack p trackId
       \<and> diagnostics (snd (addTrack trackId p))
           = [''Track with ID '' @ quoted trackId @ '' already exists.'']
       \<and> notifications (snd (addTrack trackId p)) = []"
  using assms by (simp add: addTrack_def)

theorem addTrack_existing_rejected_witness:
  "getTrack (fst (addTrack ''snare'' newPlayer)) ''snare'' \<noteq> None
   \<and> fst (addTrack ''snare'' (fst (addTrack ''snare'' newPlayer))) = fst (addTrack ''snare'' newPlayer)
   \<and> diagnostics (snd (addTrack ''snare'' (fst (addTrack ''snare'' newPlayer))))
       = [''Track with ID 'snare' already exists.'']
   \<and> notifications (snd (addTrack ''snare'' (fst (addTrack ''snare'' newPlayer)))) = []"
proof -
  have h: "getTrack (fst (addTrack ''snare'' newPlayer)) ''snare'' \<noteq> None"
    by (simp add: addTrack_def getTrack_def newPlayer_def)
  from addTrack_existing_rejected [OF h] h show ?thesis
    by (simp add: quoted_def)
qed

section \<open>Mute and restore\<close>

text \<open>
  C7. For a track that exists and a volume \<open>v\<close> between 0 and 1, after
  \<open>setTrackVolume(t, v)\<close>, \<open>setTrackMuted(t, true)\<close> and \<open>setTrackMuted(t, false)\<close>
  the gain of the track is exactly \<open>v\<close>. In between, muting puts the gain at 0 and
  leaves the stored volume at \<open>v\<close>; unmuting applies the stored volume.
\<close>

theorem mute_unmute_restores_volume:
  assumes "getTrack p trackId \<noteq> None" and "0 \<le> v" and "v \<le> 1"
  shows "map_option gain (getTrack (fst (setTrackMuted trackId False
             (fst (setTrackMuted trackId True (fst (setTrackVolume trackId v p)))))) trackId) = Some v
       \<and> map_option lastVolume (getTrack (fst (setTrackVolume trackId v p)) trackId) = Some v
       \<and> map_option gain (getTrack (fst (setTrackMuted trackId True
             (fst (setTrackVolume trackId v p)))) trackId) = Some 0
       \<and> map_option lastVolume (getTrack (fst (setTrackMuted trackId True
             (fst (setTrackVolume trackId v p)))) trackId) = Some v"
proof -
  from assms(1) obtain t where t: "getTrack p trackId = Some t" by auto
  define p1 where "p1 = fst (setTrackVolume trackId v p)"
  define p2 where "p2 = fst (setTrackMuted trackId True p1)"
  define p3 where "p3 = fst (setTrackMuted trackId False p2)"
  have g1: "getTrack p1 trackId
      = Some ((if \<not> isMuted t then t\<lparr> gain := v \<rparr> else t)\<lparr> lastVolume := v \<rparr>)"
    using t assms(2,3) by (simp add: p1_def setTrackVolume_def getTrack_tracks_update)
  then obtain t1 where t1: "getTrack p1 trackId = Some t1" and l1: "lastVolume t1 = v"
    by auto
  have g2: "getTrack p2 trackId = Some (t1\<lparr> isMuted := True, gain := 0 \<rparr>)"
    using t1 by (simp add: p2_def setTrackMuted_def getTrack_tracks_update)
  have g3: "getTrack p3 trackId = Some (t1\<lparr> isMuted := False, gain := v \<rparr>)"
    using g2 l1 by (simp add: p3_def setTrackMuted_def getTrack_tracks_update)
  show ?thesis
    using t1 l1 g2 g3 unfolding p1_def p2_def p3_def by simp
qed

theorem mute_unmute_restores_volume_witness:
  "getTrack (fst (addTrack ''kick'' newPlayer)) ''kick'' \<noteq> None \<and> (0::real) \<le> 6 / 10 \<and> (6 / 10 :: real) \<le> 1
   \<and> map_option gain (getTrack (fst (setTrackMuted ''kick'' False
        (fst (setTrackMuted ''kick'' True
          (fst (setTrackVolume ''kick'' (6 / 10) (fst (addTrack ''kick'' newPlayer)))))))) ''kick'')
      = Some (6 / 10)
   \<and> map_option gain (getTrack (fst (setTrackMuted ''kick'' True
          (fst (setTrackVolume ''kick'' (6 / 10) (fst (addTrack ''kick'' newPlayer)))))) ''kick'')
      = Some 0"
proof -
  have h: "getTrack (fst (addTrack ''kick'' newPlayer)) ''kick'' \<noteq> None"
    by (simp add: addTrack_def getTrack_def newPlayer_def)
  have a: "(0::real) \<le> 6 / 10" and b: "(6 / 10 :: real) \<le> 1" by simp_all
  from mute_unmute_restores_volume [OF h a b] h show ?thesis by simp
qed

section \<open>Transport transitions\<close>

text \<open>
  C8. \<open>stop()\<close> is idempotent. From Playing or Paused the first call leaves the player
  Stopped with the column pointer at -1 and the elapsed position at 0; the second call
  changes nothing and has no effect at all; the two calls together raise exactly one
  \<open>stop\<close> event and one \<open>gridCellChanged\<close> event with column -1. From Stopped,
  \<open>stop()\<close> does nothing.
\<close>

theorem stop_idempotent:
  assumes "isPlaying p \<or> isPaused p" and "isStopped q"
  shows "isStopped (fst (stop p))
       \<and> currentCellIndex (fst (stop p)) = - 1
       \<and> playbackTime (fst (stop p)) = 0
       \<and> stop (fst (stop p)) = (fst (stop p), [])
       \<and> notifications (snd (stop p) @ snd (stop (fst (stop p))))
           = [EvStop, GridCellChanged (- 1) 0]
       \<and> stop q = (q, [])"
  using assms
  by (auto simp: stop_def isStopped_def notifications_append notifications_SourceStop)

theorem stop_idempotent_witness:
  "(isPlaying (fst (play \<lparr> suspended = False, currentTime = 5 \<rparr> newPlayer))
      \<or> isPaused (fst (play \<lparr> suspended = False, currentTime = 5 \<rparr> newPlayer)))
   \<and> isStopped newPlayer
   \<and> notifications (snd (stop (fst (play \<lparr> suspended = False, currentTime = 5 \<rparr> newPlayer)))
        @ snd (stop (fst (stop (fst (play \<lparr> suspended = False, currentTime = 5 \<rparr> newPlayer))))))
      = [EvStop, GridCellChanged (- 1) 0]
   \<and> stop newPlayer = (newPlayer, [])"
proof -
  let ?p = "fst (play \<lparr> suspended = False, currentTime = 5 \<rparr> newPlayer)"
  have a: "isPlaying ?p \<or> isPaused ?p" by (simp add: play_def newPlayer_def)
  have b: "isStopped newPlayer" by (simp add: isStopped_def newPlayer_def)
  from stop_idempotent [OF a b] a b show ?thesis by blast
qed

lemma pause_keeps_pointer_and_deadline:
  assumes "isPlaying p"
  shows "cancelled (snd (pause ctx p)) = scheduledSources p
       \<and> scheduledSources (fst (pause ctx p)) = []
       \<and> getStatus (fst (pause ctx p)) = (False, True)
       \<and> notifications (snd (pause ctx p)) = [EvPause]
       \<and> currentCellIndex (fst (pause ctx p)) = currentCellIndex p
       \<and> nextCellTime (fst (pause ctx p)) = nextCellTime p"
  using assms
  by (simp add: pause_def getStatus_def Let_def cancelled_append cancelled_SourceStop
      notifications_append notifications_SourceStop)

lemma pause_when_not_playing: "\<not> isPlaying p \<Longrightarrow> pause ctx p = (p, [])"
  by (simp add: pause_def)

text \<open>
  \<open>play()\<close> on a paused player sets the two flags and nothing else: the position that
  \<open>pause()\<close> stored is not read, and the deadline is not moved to the clock.
\<close>

lemma play_when_paused_sets_flags_only:
  assumes "isPaused p" and "\<not> isPlaying p"
  shows "fst (play ctx p) = p\<lparr> isPlaying := True, isPaused := False \<rparr>"
  using assms by (simp add: play_def Let_def)

text \<open>
  C3. The claim has \<open>play()\<close> on a paused player resume playback from the position that
  \<open>pause()\<close> stored. The code stores that position "for resumption" and never reads it,
  and \<open>play()\<close> leaves the deadline of the next column where it was before the pause.
  The theorem follows a player at 120 BPM (a column every 1/8 s) with one track and a
  buffer in column 2: \<open>play()\<close> and a tick at clock 0, which schedules column 0;
  \<open>pause()\<close> at clock 1/32, which stores the position 1/32; \<open>play()\<close> at clock 1, which
  keeps the deadline 1/8. The next tick, at clock 1, does not go on with column 1 from the
  clock reading: it announces the columns 1 to 8 in one go, with the deadlines 1/8 to 1,
  seven of them in the past, and starts the sound of column 2 with the start time 1/4.
\<close>

theorem resume_replays_paused_time:
  "scheduleAudio \<lparr> suspended = False, currentTime = 0 \<rparr>
     (fst (play \<lparr> suspended = False, currentTime = 0 \<rparr>
       (fst (addAudioToGrid ''kick'' 2 (Single (AudioBuffer 0)) (fst (addTrack ''kick'' newPlayer))))))
   = Some (Returns
       (\<lparr> tracks = [(''kick'', \<lparr> gain = 1, cells = [2 \<mapsto> Single (AudioBuffer 0)],
                isMuted = False, lastVolume = 1 \<rparr>)],
           bpm = 120, timeSignatureNumerator = 4, timeSignatureDenominator = 4,
           subdivisionNoteValue = 16, loop = True, isPlaying = True, isPaused = False,
           playbackTime = 0, currentCellIndex = 0, nextCellTime = 1 / 8,
           scheduledSources = [], masterGain = 1 \<rparr>,
        [DispatchEvent (GridCellChanged 0 0)]))
   \<and> playbackTime (fst (pause \<lparr> suspended = False, currentTime = 1 / 32 \<rparr>
        \<lparr> tracks = [(''kick'', \<lparr> gain = 1, cells = [2 \<mapsto> Single (AudioBuffer 0)],
                isMuted = False, lastVolume = 1 \<rparr>)],
           bpm = 120, timeSignatureNumerator = 4, timeSignatureDenominator = 4,
           subdivisionNoteValue = 16, loop = True, isPlaying = True, isPaused = False,
           playbackTime = 0, currentCellIndex = 0, nextCellTime = 1 / 8,
           scheduledSources = [], masterGain = 1 \<rparr>)) = 1 / 32
   \<and> nextCellTime (fst (play \<lparr> suspended = False, currentTime = 1 \<rparr>
        (fst (pause \<lparr> suspended = False, currentTime = 1 / 32 \<rparr>
        \<lparr> tracks = [(''kick'', \<lparr> gain = 1, cells = [2 \<mapsto> Single (AudioBuffer 0)],
                isMuted = False, lastVolume = 1 \<rparr>)],
           bpm = 120, timeSignatureNumerator = 4, timeSignatureDenominator = 4,
           subdivisionNoteValue = 16, loop = True, isPlaying = True, isPaused = False,
           playbackTime = 0, currentCellIndex = 0, nextCellTime = 1 / 8,
           scheduledSources = [], masterGain = 1 \<rparr>)))) = 1 / 8
   \<and> scheduleAudio \<lparr> suspended = False, currentTime = 1 \<rparr>
        (fst (play \<lparr> suspended = False, currentTime = 1 \<rparr>
          (fst (pause \<lparr> suspended = False, currentTime = 1 / 32 \<rparr>
        \<lparr> tracks = [(''kick'', \<lparr> gain = 1, cells = [2 \<mapsto> Single (AudioBuffer 0)],
                isMuted = False, lastVolume = 1 \<rparr>)],
           bpm = 120, timeSignatureNumerator = 4, timeSignatureDenominator = 4,
           subdivisionNoteValue = 16, loop = True, isPlaying = True, isPaused = False,
           playbackTime = 0, currentCellIndex = 0, nextCellTime = 1 / 8,
           scheduledSources = [], masterGain = 1 \<rparr>))))
      = Some (Returns
       (\<lparr> tracks = [(''kick'', \<lparr> gain = 1, cells = [2 \<mapsto> Single (AudioBuffer 0)],
                isMuted = False, lastVolume = 1 \<rparr>)],
           bpm = 120, timeSignatureNumerator = 4, timeSignatureDenominator = 4,
           subdivisionNoteValue = 16, loop = True, isPlaying = True, isPaused = False,
           playbackTime = 1 / 32, currentCellIndex = 8, nextCellTime = 9 / 8,
           scheduledSources = [\<lparr> buffer = AudioBuffer 0, connectedTo = ''kick'', startAt = 1 / 4 \<rparr>],
           masterGain = 1 \<rparr>,
        [DispatchEvent (GridCellChanged 1 (1 / 8)),
         DispatchEvent (GridCellChanged 2 (1 / 4)),
         SourceStart \<lparr> buffer = AudioBuffer 0, connectedTo = ''kick'', startAt = 1 / 4 \<rparr>,
         DispatchEvent (GridCellChanged 3 (3 / 8)),
         DispatchEvent (GridCellChanged 4 (1 / 2)),
         DispatchEvent (GridCellChanged 5 (5 / 8)),
         DispatchEvent (GridCellChanged 6 (3 / 4)),
         DispatchEvent (GridCellChanged 7 (7 / 8)),
         DispatchEvent (GridCellChanged 8 1)]))"
proof -
  let ?p1 = "\<lparr> tracks = [(''kick'', \<lparr> gain = 1, cells = [2 \<mapsto> Single (AudioBuffer 0)],
                isMuted = False, lastVolume = 1 \<rparr>)],
           bpm = 120, timeSignatureNumerator = 4, timeSignatureDenominator = 4,
           subdivisionNoteValue = 16, loop = True, isPlaying = True, isPaused = False,
           playbackTime = 0, currentCellIndex = 0, nextCellTime = 1 / 8,
           scheduledSources = [], masterGain = 1 \<rparr>"
  have first: "scheduleAudio \<lparr> suspended = False, currentTime = 0 \<rparr>
     (fst (play \<lparr> suspended = False, currentTime = 0 \<rparr>
       (fst (addAudioToGrid ''kick'' 2 (Single (AudioBuffer 0)) (fst (addTrack ''kick'' newPlayer))))))
     = Some (Returns (?p1, [DispatchEvent (GridCellChanged 0 0)]))"
    apply (simp add: scheduleAudio_def play_def addAudioToGrid_def addTrack_def newPlayer_def
        getTrack_def modifyTrack_def calculateCellDuration_def getMaxColumns_def)
    apply (subst scheduleLoop.simps)
    apply (simp add: lookAheadTime_def scheduleCell_def Let_def)
    apply (subst scheduleLoop.simps)
    apply (simp add: lookAheadTime_def)
    done
  have stored: "playbackTime (fst (pause \<lparr> suspended = False, currentTime = 1 / 32 \<rparr> ?p1)) = 1 / 32"
    by (simp add: pause_def calculateCellDuration_def Let_def)
  have resumed: "fst (play \<lparr> suspended = False, currentTime = 1 \<rparr>
        (fst (pause \<lparr> suspended = False, currentTime = 1 / 32 \<rparr> ?p1)))
      = ?p1\<lparr> playbackTime := 1 / 32 \<rparr>"
    by (simp add: pause_def play_def calculateCellDuration_def Let_def)
  have tick: "scheduleAudio \<lparr> suspended = False, currentTime = 1 \<rparr> (?p1\<lparr> playbackTime := 1 / 32 \<rparr>)
      = Some (Returns
       (\<lparr> tracks = [(''kick'', \<lparr> gain = 1, cells = [2 \<mapsto> Single (AudioBuffer 0)],
                isMuted = False, lastVolume = 1 \<rparr>)],
           bpm = 120, timeSignatureNumerator = 4, timeSignatureDenominator = 4,
           subdivisionNoteValue = 16, loop = True, isPlaying = True, isPaused = False,
           playbackTime = 1 / 32, currentCellIndex = 8, nextCellTime = 9 / 8,
           scheduledSources = [\<lparr> buffer = AudioBuffer 0, connectedTo = ''kick'', startAt = 1 / 4 \<rparr>],
           masterGain = 1 \<rparr>,
        [DispatchEvent (GridCellChanged 1 (1 / 8)),
         DispatchEvent (GridCellChanged 2 (1 / 4)),
         SourceStart \<lparr> buffer = AudioBuffer 0, connectedTo = ''kick'', startAt = 1 / 4 \<rparr>,
         DispatchEvent (GridCellChanged 3 (3 / 8)),
         DispatchEvent (GridCellChanged 4 (1 / 2)),
         DispatchEvent (GridCellChanged 5 (5 / 8)),
         DispatchEvent (GridCellChanged 6 (3 / 4)),
         DispatchEvent (GridCellChanged 7 (7 / 8)),
         DispatchEvent (GridCellChanged 8 1)]))"
    apply (simp add: scheduleAudio_def calculateCellDuration_def getMaxColumns_def)
    apply (subst scheduleLoop.simps, simp add: lookAheadTime_def scheduleCell_def Let_def)+
    done
  from first stored resumed tick show ?thesis by simp
qed

text \<open>
  C9. In every state reachable from the fresh player by public calls (and by timer ticks
  and ended sounds in between), the flags \<open>isPlaying\<close> and \<open>isPaused\<close> are not
  both set: exactly one of Stopped, Playing and Paused holds, and \<open>getStatus\<close> never
  reports both flags.
\<close>

theorem transport_state_partition:
  assumes "reachable p"
  shows "\<not> (isPlaying p \<and> isPaused p)
       \<and> getStatus p \<noteq> (True, True)
       \<and> ((isStopped p \<and> \<not> isPlaying p \<and> \<not> isPaused p)
          \<or> (isPlaying p \<and> \<not> isStopped p \<and> \<not> isPaused p)
          \<or> (isPaused p \<and> \<not> isStopped p \<and> \<not> isPlaying p))"
  using reachable_partition [OF assms] by (auto simp: isStopped_def getStatus_def)

theorem transport_state_partition_witness:
  "reachable (fst (perform \<lparr> suspended = False, currentTime = 2 \<rparr> CallPause
       (fst (perform \<lparr> suspended = True, currentTime = 1 \<rparr> CallPlay newPlayer))))
   \<and> getStatus (fst (perform \<lparr> suspended = False, currentTime = 2 \<rparr> CallPause
       (fst (perform \<lparr> suspended = True, currentTime = 1 \<rparr> CallPlay newPlayer)))) \<noteq> (True, True)
   \<and> isPaused (fst (perform \<lparr> suspended = False, currentTime = 2 \<rparr> CallPause
       (fst (perform \<lparr> suspended = True, currentTime = 1 \<rparr> CallPlay newPlayer))))"
proof -
  let ?p = "fst (perform \<lparr> suspended = False, currentTime = 2 \<rparr> CallPause
       (fst (perform \<lparr> suspended = True, currentTime = 1 \<rparr> CallPlay newPlayer)))"
  have r: "reachable ?p" by (intro reachable.call reachable.fresh)
  have q: "isPaused ?p" by (simp add: play_def pause_def newPlayer_def Let_def)
  from transport_state_partition [OF r] r q show ?thesis by blast
qed

section \<open>The guard on the transport state\<close>

text \<open>
  C1, as the code has it. \<open>setBPM\<close>, \<open>setTimeSignature\<close>, \<open>setSubdivisionNoteValue\<close>,
  \<open>removeTrack\<close>, \<open>addAudioToGrid\<close> and \<open>removeAudioFromGrid\<close> are rejected while
  the player is Playing or Paused: the player is unchanged, one diagnostic is reported and
  no event is raised. \<open>addTrack\<close> has no such guard: with an id the registry does not
  hold it appends the new track and raises \<open>trackAdded\<close>, whatever the transport state.
\<close>

theorem stoppedOnly_rejected_unless_stopped:
  assumes "stoppedOnly c" and "isPlaying p \<or> isPaused p" and "getTrack q trackId = None"
  shows "fst (perform ctx c p) = p
       \<and> length (diagnostics (snd (perform ctx c p))) = 1
       \<and> notifications (snd (perform ctx c p)) = []
       \<and> tracks (fst (addTrack trackId q))
           = tracks q @ [(trackId, \<lparr> gain = 1, cells = Map.empty, isMuted = False, lastVolume = 1 \<rparr>)]
       \<and> snd (addTrack trackId q) = [DispatchEvent (TrackAdded trackId)]"
  using assms
  by (cases c)
     (auto simp: setBPM_def setTimeSignature_def setSubdivisionNoteValue_def removeTrack_def
        addAudioToGrid_def removeAudioFromGrid_def addTrack_def)

theorem stoppedOnly_rejected_unless_stopped_witness:
  "stoppedOnly (CallSetBPM 160)
   \<and> (isPlaying (fst (play \<lparr> suspended = False, currentTime = 0 \<rparr> newPlayer))
       \<or> isPaused (fst (play \<lparr> suspended = False, currentTime = 0 \<rparr> newPlayer)))
   \<and> getTrack (fst (play \<lparr> suspended = False, currentTime = 0 \<rparr> newPlayer)) ''bass'' = None
   \<and> bpm (fst (perform \<lparr> suspended = False, currentTime = 1 \<rparr> (CallSetBPM 160)
         (fst (play \<lparr> suspended = False, currentTime = 0 \<rparr> newPlayer)))) = 120
   \<and> notifications (snd (perform \<lparr> suspended = False, currentTime = 1 \<rparr> (CallSetBPM 160)
         (fst (play \<lparr> suspended = False, currentTime = 0 \<rparr> newPlayer)))) = []
   \<and> snd (addTrack ''bass'' (fst (play \<lparr> suspended = False, currentTime = 0 \<rparr> newPlayer)))
       = [DispatchEvent (TrackAdded ''bass'')]"
proof -
  let ?p = "fst (play \<lparr> suspended = False, currentTime = 0 \<rparr> newPlayer)"
  have a: "stoppedOnly (CallSetBPM 160)" by simp
  have b: "isPlaying ?p \<or> isPaused ?p" by (simp add: play_def newPlayer_def)
  have c: "getTrack ?p ''bass'' = None" by (simp add: play_def newPlayer_def getTrack_def)
  have d: "bpm ?p = 120" by (simp add: play_def newPlayer_def)
  from stoppedOnly_rejected_unless_stopped [OF a b c, where ctx = "\<lparr> suspended = False, currentTime = 1 \<rparr>"]
    a b c d
  show ?thesis by metis
qed

text \<open>
  C1 as stated fails for \<open>addTrack\<close>: on a playing player, \<open>addTrack\<close> of a new id
  changes the registry, reports nothing and raises \<open>trackAdded\<close>.
\<close>

theorem addTrack_while_playing_counterexample:
  "isPlaying (fst (play \<lparr> suspended = False, currentTime = 0 \<rparr> newPlayer))
   \<and> tracks (fst (play \<lparr> suspended = False, currentTime = 0 \<rparr> newPlayer)) = []
   \<and> tracks (fst (addTrack ''bass'' (fst (play \<lparr> suspended = False, currentTime = 0 \<rparr> newPlayer))))
       = [(''bass'', \<lparr> gain = 1, cells = Map.empty, isMuted = False, lastVolume = 1 \<rparr>)]
   \<and> fst (addTrack ''bass'' (fst (play \<lparr> suspended = False, currentTime = 0 \<rparr> newPlayer)))
       \<noteq> fst (play \<lparr> suspended = False, currentTime = 0 \<rparr> newPlayer)
   \<and> diagnostics (snd (addTrack ''bass'' (fst (play \<lparr> suspended = False, currentTime = 0 \<rparr> newPlayer)))) = []
   \<and> notifications (snd (addTrack ''bass'' (fst (play \<lparr> suspended = False, currentTime = 0 \<rparr> newPlayer))))
       = [TrackAdded ''bass'']"
  by (simp add: addTrack_def play_def newPlayer_def getTrack_def)

section \<open>Columns of a measure\<close>

text \<open>
  C6, as the code has it. A time signature with positive parts and a subdivision note
  value among 4, 8, 16 and 32 are accepted without any diagnostic, whatever the ratio
  \<open>S / D\<close>. The column count is then the positive number \<open>N * (S / D)\<close>, taken as it
  is: an integer when \<open>N\<close> and \<open>S / D\<close> are integers.
\<close>

theorem getMaxColumns_accepted_configuration:
  assumes "isStopped p" and "0 < n" and "0 < d" and "s \<in> {4, 8, 16, 32}"
  shows "snd (setTimeSignature n d p) = [DispatchEvent (TimeSignatureChanged n d)]
       \<and> snd (setSubdivisionNoteValue s (fst (setTimeSignature n d p))) = [DispatchEvent (SubdivisionChanged s)]
       \<and> getMaxColumns (fst (setSubdivisionNoteValue s (fst (setTimeSignature n d p)))) = n * (s / d)
       \<and> 0 < getMaxColumns (fst (setSubdivisionNoteValue s (fst (setTimeSignature n d p))))
       \<and> (n \<in> \<int> \<and> s / d \<in> \<int>
            \<longrightarrow> getMaxColumns (fst (setSubdivisionNoteValue s (fst (setTimeSignature n d p)))) \<in> \<int>)"
proof -
  have pos: "0 < s" using assms(4) by auto
  have m: "getMaxColumns (fst (setSubdivisionNoteValue s (fst (setTimeSignature n d p)))) = n * (s / d)"
    using assms by (auto simp: setTimeSignature_def setSubdivisionNoteValue_def isStopped_def getMaxColumns_def)
  have e1: "snd (setTimeSignature n d p) = [DispatchEvent (TimeSignatureChanged n d)]"
    using assms by (simp add: setTimeSignature_def isStopped_def)
  have e2: "snd (setSubdivisionNoteValue s (fst (setTimeSignature n d p))) = [DispatchEvent (SubdivisionChanged s)]"
    using assms by (auto simp: setTimeSignature_def setSubdivisionNoteValue_def isStopped_def)
  have gt: "0 < n * (s / d)" using assms(2,3) pos by simp
  have "n \<in> \<int> \<and> s / d \<in> \<int> \<longrightarrow> n * (s / d) \<in> \<int>" by (blast intro: Ints_mult)
  with m e1 e2 gt show ?thesis by presburger
qed

theorem getMaxColumns_accepted_configuration_witness:
  "isStopped newPlayer \<and> (0::real) < 6 \<and> (0::real) < 8 \<and> (16::real) \<in> {4, 8, 16, 32}
   \<and> snd (setTimeSignature 6 8 newPlayer) = [DispatchEvent (TimeSignatureChanged 6 8)]
   \<and> getMaxColumns (fst (setSubdivisionNoteValue 16 (fst (setTimeSignature 6 8 newPlayer)))) = 12
   \<and> getMaxColumns (fst (setSubdivisionNoteValue 16 (fst (setTimeSignature 6 8 newPlayer)))) \<in> \<int>"
proof -
  have a: "isStopped newPlayer" by (simp add: isStopped_def newPlayer_def)
  have b: "(0::real) < 6" and c: "(0::real) < 8" and d: "(16::real) \<in> {4, 8, 16, 32}" by simp_all
  have e: "(6::real) \<in> \<int> \<and> (16::real) / 8 \<in> \<int>" by simp
  from getMaxColumns_accepted_configuration [OF a b c d] a e show ?thesis by simp
qed

text \<open>
  C6 as stated fails: with the default subdivision 16, the time signature 3/32 is accepted
  with the usual event and no diagnostic, and the column count is 3/2.
\<close>

theorem fractional_columns_counterexample:
  "isStopped newPlayer
   \<and> snd (setTimeSignature 3 32 newPlayer) = [DispatchEvent (TimeSignatureChanged 3 32)]
   \<and> diagnostics (snd (setTimeSignature 3 32 newPlayer)) = []
   \<and> subdivisionNoteValue (fst (setTimeSignature 3 32 newPlayer)) = 16
   \<and> getMaxColumns (fst (setTimeSignature 3 32 newPlayer)) = 3 / 2
   \<and> getMaxColumns (fst (setTimeSignature 3 32 newPlayer)) \<notin> \<int>"
  by (simp add: setTimeSignature_def newPlayer_def isStopped_def getMaxColumns_def)

section \<open>Triggers of a scheduled column\<close>




end
